theory Spec2Isabelle
  imports Main "HOL-Library.List_Lexorder"
begin

section \<open>Python strings\<close>

text \<open>
  A Python \<open>str\<close> is a sequence of Unicode code points. Idea texts are Korean in
  practice (the prompt of \<open>generate_ideas\<close> is), so a character is its code point, a
  natural number, and not an 8-bit \<open>char\<close>. \<open>lit\<close> reads an ASCII literal.
\<close>

type_synonym ustr = "nat list"

definition lit :: "string \<Rightarrow> ustr" where
  "lit s = map of_char s"

definition in_ranges :: "(nat \<times> nat) list \<Rightarrow> nat \<Rightarrow> bool" where
  "in_ranges rs c = list_ex (\<lambda>(lo, hi). lo \<le> c \<and> c \<le> hi) rs"

text \<open>
  \<open>str.isspace\<close>, which is also the set of characters that \<open>str.strip()\<close> removes:
  the code points of bidirectional class WS, B or S, or of general category Zs.
\<close>

definition isspace :: "nat \<Rightarrow> bool" where
  "isspace c = in_ranges
     [(9, 13), (28, 32), (133, 133), (160, 160), (5760, 5760), (8192, 8202),
      (8232, 8233), (8239, 8239), (8287, 8287), (12288, 12288)] c"

text \<open>
  \<open>str.isdigit\<close>: the code points whose Unicode numeric type is Decimal or Digit,
  as ranges (the table of Unicode 14.0, the one of CPython 3.11). Besides \<open>0\<close> to \<open>9\<close>
  it holds the superscript digits, the digits of other scripts and the circled digits.
\<close>

definition isdigit :: "nat \<Rightarrow> bool" where
  "isdigit c = in_ranges
     [(48, 57), (178, 179), (185, 185), (1632, 1641), (1776, 1785), (1984, 1993),
      (2406, 2415), (2534, 2543), (2662, 2671), (2790, 2799), (2918, 2927),
      (3046, 3055), (3174, 3183), (3302, 3311), (3430, 3439), (3558, 3567),
      (3664, 3673), (3792, 3801), (3872, 3881), (4160, 4169), (4240, 4249),
      (4969, 4977), (6112, 6121), (6160, 6169), (6470, 6479), (6608, 6618),
      (6784, 6793), (6800, 6809), (6992, 7001), (7088, 7097), (7232, 7241),
      (7248, 7257), (8304, 8304), (8308, 8313), (8320, 8329), (9312, 9320),
      (9332, 9340), (9352, 9360), (9450, 9450), (9461, 9469), (9471, 9471),
      (10102, 10110), (10112, 10120), (10122, 10130), (42528, 42537),
      (43216, 43225), (43264, 43273), (43472, 43481), (43504, 43513),
      (43600, 43609), (44016, 44025), (65296, 65305), (66720, 66729),
      (68160, 68163), (68912, 68921), (69216, 69224), (69714, 69722),
      (69734, 69743), (69872, 69881), (69942, 69951), (70096, 70105),
      (70384, 70393), (70736, 70745), (70864, 70873), (71248, 71257),
      (71360, 71369), (71472, 71481), (71904, 71913), (72016, 72025),
      (72784, 72793), (73040, 73049), (73120, 73129), (92768, 92777),
      (92864, 92873), (93008, 93017), (120782, 120831), (123200, 123209),
      (123632, 123641), (125264, 125273), (127232, 127242), (130032, 130041)] c"

text \<open>\<open>s.strip()\<close>: the whitespace at both ends goes.\<close>

definition strip :: "ustr \<Rightarrow> ustr" where
  "strip s = rev (dropWhile isspace (rev (dropWhile isspace s)))"

text \<open>
  \<open>s.split(c)\<close> for a separator of one character, scanning from the left with the
  piece read so far in \<open>acc\<close> (reversed): \<open>n\<close> separators give \<open>n + 1\<close> pieces, empty
  ones included.
\<close>

fun split_acc :: "nat \<Rightarrow> ustr \<Rightarrow> ustr \<Rightarrow> ustr list" where
  "split_acc c acc [] = [rev acc]"
| "split_acc c acc (x # xs) =
     (if x = c then rev acc # split_acc c [] xs else split_acc c (x # acc) xs)"

definition split_char :: "nat \<Rightarrow> ustr \<Rightarrow> ustr list" where
  "split_char c s = split_acc c [] s"

text \<open>
  \<open>str_find sub s\<close> is the index of the first occurrence of \<open>sub\<close> in \<open>s\<close>, if there is
  one; \<open>sub in s\<close> and \<open>s.split(sub, 1)\<close> both rest on it.
\<close>

fun str_find :: "ustr \<Rightarrow> ustr \<Rightarrow> nat option" where
  "str_find sub [] = (if sub = [] then Some 0 else None)"
| "str_find sub (c # s) =
     (if take (length sub) (c # s) = sub then Some 0
      else map_option Suc (str_find sub s))"

definition contains :: "ustr \<Rightarrow> ustr \<Rightarrow> bool" where
  "contains sub s = (str_find sub s \<noteq> None)"

text \<open>\<open>s.split(sep, 1)\<close>: at most one split, at the first occurrence of \<open>sep\<close>.\<close>

definition split1 :: "ustr \<Rightarrow> ustr \<Rightarrow> ustr list" where
  "split1 sep s =
     (case str_find sep s of
        None \<Rightarrow> [s]
      | Some i \<Rightarrow> [take i s, drop (i + length sep) s])"

text \<open>\<open>sep.join(xs)\<close>.\<close>

fun join :: "ustr \<Rightarrow> ustr list \<Rightarrow> ustr" where
  "join sep [] = []"
| "join sep [x] = x"
| "join sep (x # y # ys) = x @ sep @ join sep (y # ys)"

section \<open>Exceptions\<close>

text \<open>
  What can be raised inside the \<open>try\<close> block of \<open>generate_ideas\<close>: an index out of
  range, or whatever the generation service raises (with its message).
\<close>

datatype exn = IndexError | ServiceError ustr

fun str_exn :: "exn \<Rightarrow> ustr" where
  "str_exn IndexError = lit ''list index out of range''"
| "str_exn (ServiceError msg) = msg"

text \<open>\<open>xs[i]\<close> for \<open>i \<ge> 0\<close>.\<close>

definition index :: "'a list \<Rightarrow> nat \<Rightarrow> exn + 'a" where
  "index xs i = (if i < length xs then Inr (xs ! i) else Inl IndexError)"

section \<open>The parser of \<open>generate_ideas\<close>\<close>

text \<open>
  Line 72: \<open>[line.strip() for line in response.text.split('\n') if line.strip()]\<close>.
\<close>

definition stripped_lines :: "ustr \<Rightarrow> ustr list" where
  "stripped_lines text =
     map strip (filter (\<lambda>line. strip line \<noteq> []) (split_char 10 text))"

text \<open>
  Line 74, the element: \<open>idea.split('. ', 1)[1] if '. ' in idea else idea\<close>.
\<close>

definition dot_space :: ustr where
  "dot_space = [46, 32]"

definition strip_number :: "ustr \<Rightarrow> exn + ustr" where
  "strip_number idea =
     (if contains dot_space idea then index (split1 dot_space idea) 1 else Inr idea)"

text \<open>Line 74, the filter: \<open>any(c.isdigit() for c in idea[:2])\<close>.\<close>

definition starts_numbered :: "ustr \<Rightarrow> bool" where
  "starts_numbered idea = list_ex isdigit (take 2 idea)"

text \<open>
  Line 74, the comprehension: the kept lines in order, each through \<open>strip_number\<close>;
  an exception in an element ends the comprehension.
\<close>

fun numbered_ideas :: "ustr list \<Rightarrow> exn + ustr list" where
  "numbered_ideas [] = Inr []"
| "numbered_ideas (idea # rest) =
     (if starts_numbered idea then
        (case strip_number idea of
           Inl e \<Rightarrow> Inl e
         | Inr x \<Rightarrow> (case numbered_ideas rest of Inl e \<Rightarrow> Inl e | Inr xs \<Rightarrow> Inr (x # xs)))
      else numbered_ideas rest)"

definition parse_ideas :: "ustr \<Rightarrow> exn + ustr list" where
  "parse_ideas text = numbered_ideas (stripped_lines text)"

section \<open>The idea generator\<close>

text \<open>
  The constant pieces of the two f-strings of \<open>generate_ideas\<close> (lines 40 to 49 and
  51 to 63) and its four messages, as code points. They are Korean text:
  \<open>feedback_text1\<close> to \<open>3\<close> introduce the liked ideas, the removed ideas and the
  instruction to follow the one and avoid the other; \<open>prompt_text1\<close> to \<open>3\<close> ask for
  five ideas on the topic and list the requirements; \<open>none_text\<close> is the word for
  "none".
\<close>

definition feedback_text1 :: ustr where
  "feedback_text1 =
     [10, 32, 32, 32, 32, 32, 32, 32, 32, 51060, 51204, 32, 46972, 50868, 46300, 50640,
      49436, 32, 49324, 50857, 51088, 44032, 32, 51339, 50500, 54620, 32, 50500, 51060,
      46356, 50612, 32, 50976, 54805, 58, 10, 32, 32, 32, 32, 32, 32, 32, 32]"

definition feedback_text2 :: ustr where
  "feedback_text2 =
     [10, 32, 32, 32, 32, 32, 32, 32, 32, 10, 32, 32, 32, 32, 32, 32, 32, 32, 51060,
      51204, 32, 46972, 50868, 46300, 50640, 49436, 32, 49324, 50857, 51088, 44032, 32,
      51228, 44144, 54620, 32, 50500, 51060, 46356, 50612, 32, 50976, 54805, 58, 10, 32,
      32, 32, 32, 32, 32, 32, 32]"

definition feedback_text3 :: ustr where
  "feedback_text3 =
     [10, 32, 32, 32, 32, 32, 32, 32, 32, 10, 32, 32, 32, 32, 32, 32, 32, 32, 50948,
      51032, 32, 54588, 46300, 48177, 51012, 32, 52280, 44256, 54616, 50668, 44, 32,
      51339, 50500, 54620, 32, 50500, 51060, 46356, 50612, 50752, 32, 50976, 49324,
      54620, 32, 49352, 47196, 50868, 32, 51217, 44540, 32, 48169, 49885, 51012, 32,
      51228, 49884, 54616, 44256, 44, 10, 32, 32, 32, 32, 32, 32, 32, 32, 51228, 44144,
      46108, 32, 50500, 51060, 46356, 50612, 50752, 32, 50976, 49324, 54620, 32, 51217,
      44540, 32, 48169, 49885, 51008, 32, 54588, 54644, 51452, 49464, 50836, 46, 10, 32,
      32, 32, 32, 32, 32, 32, 32]"

definition prompt_text1 :: ustr where
  "prompt_text1 =
     [10, 32, 32, 32, 32, 45796, 51020, 32, 51452, 51228, 50640, 32, 45824, 54644, 32,
      53, 44060, 51032, 32, 52285, 51032, 51201, 51060, 44256, 32, 49892, 50857, 51201,
      51064, 32, 50500, 51060, 46356, 50612, 47484, 32, 49373, 49457, 54644, 51452,
      49464, 50836, 58, 10, 32, 32, 32, 32, 51452, 51228, 58, 32]"

definition prompt_text2 :: ustr where
  "prompt_text2 =
     [10, 32, 32, 32, 32, 10, 32, 32, 32, 32]"

definition prompt_text3 :: ustr where
  "prompt_text3 =
     [10, 32, 32, 32, 32, 10, 32, 32, 32, 32, 50836, 44396, 49324, 54637, 58, 10, 32,
      32, 32, 32, 45, 32, 44033, 32, 50500, 51060, 46356, 50612, 45716, 32, 49, 126, 50,
      47928, 51109, 51004, 47196, 32, 44036, 44208, 54616, 44172, 32, 51089, 49457, 10,
      32, 32, 32, 32, 45, 32, 51473, 48373, 46104, 45716, 32, 50500, 51060, 46356,
      50612, 45716, 32, 51228, 50808, 10, 32, 32, 32, 32, 45, 32, 44033, 32, 50500,
      51060, 46356, 50612, 45716, 32, 48264, 54840, 50752, 32, 54632, 44760, 32, 51089,
      49457, 32, 40, 50696, 58, 32, 34, 49, 46, 32, 50500, 51060, 46356, 50612, 32,
      45236, 50857, 34, 41, 10, 32, 32, 32, 32, 45, 32, 52285, 51032, 51201, 51060,
      44256, 32, 49892, 54788, 32, 44032, 45733, 54620, 32, 50500, 51060, 46356, 50612,
      47484, 32, 51228, 49884, 10, 32, 32, 32, 32, 45, 32, 51060, 51204, 50640, 32,
      51228, 49884, 46108, 32, 50500, 51060, 46356, 50612, 50752, 32, 50976, 49324,
      54620, 32, 51217, 44540, 32, 48169, 49885, 51008, 32, 54588, 54644, 51452, 49464,
      50836, 10, 32, 32, 32, 32]"

definition none_text :: ustr where
  "none_text =
     [50630, 51020]"

definition msg_no_topic :: ustr where
  "msg_no_topic =
     [9888, 65039, 32, 51452, 51228, 47484, 32, 51077, 47141, 54644, 51452, 49464,
      50836, 46]"

definition msg_failed :: ustr where
  "msg_failed =
     [9888, 65039, 32, 50500, 51060, 46356, 50612, 32, 49373, 49457, 50640, 32, 49892,
      54056, 54664, 49845, 45768, 45796, 46, 32, 45796, 49884, 32, 49884, 46020, 54644,
      51452, 49464, 50836, 46]"

definition msg_unparsed :: ustr where
  "msg_unparsed =
     [9888, 65039, 32, 49373, 49457, 46108, 32, 50500, 51060, 46356, 50612, 47484, 32,
      54028, 49905, 54624, 32, 49688, 32, 50630, 49845, 45768, 45796, 46, 32, 45796,
      49884, 32, 49884, 46020, 54644, 51452, 49464, 50836, 46]"

definition msg_exception :: ustr where
  "msg_exception =
     [9888, 65039, 32, 50500, 51060, 46356, 50612, 32, 49373, 49457, 32, 51473, 32,
      50724, 47448, 44032, 32, 48156, 49373, 54664, 49845, 45768, 45796, 58, 32]"

text \<open>
  What the user is shown: \<open>st.warning\<close> and \<open>st.error\<close>, with the message.
\<close>

datatype notice = Warning ustr | Error ustr

text \<open>
  A call of \<open>generate_ideas\<close> returns a list and, on the side, shows notices and calls
  the generation service: \<open>calls\<close> holds the prompts sent, in order.
\<close>

record gen_out =
  returned :: "ustr list"
  notices :: "notice list"
  calls :: "ustr list"

text \<open>
  Lines 38 to 49. \<open>order\<close> is the order in which the runtime iterates a set (Python
  leaves it unspecified); \<open>', '.join(liked_ideas)\<close> reads the set in that order.
\<close>

definition feedback_context :: "(ustr set \<Rightarrow> ustr list) \<Rightarrow> ustr set \<Rightarrow> ustr set \<Rightarrow> int \<Rightarrow> ustr" where
  "feedback_context order liked_ideas removed_ideas round_num =
     (if round_num > 1 then
        feedback_text1
        @ (if liked_ideas \<noteq> {} then join [44, 32] (order liked_ideas) else none_text)
        @ feedback_text2
        @ (if removed_ideas \<noteq> {} then join [44, 32] (order removed_ideas) else none_text)
        @ feedback_text3
      else [])"

text \<open>Lines 51 to 63.\<close>

definition prompt :: "(ustr set \<Rightarrow> ustr list) \<Rightarrow> ustr \<Rightarrow> ustr set \<Rightarrow> ustr set \<Rightarrow> int \<Rightarrow> ustr" where
  "prompt order topic liked_ideas removed_ideas round_num =
     prompt_text1 @ topic @ prompt_text2
     @ feedback_context order liked_ideas removed_ideas round_num @ prompt_text3"

text \<open>
  \<open>generate_ideas\<close>, lines 31 to 83. \<open>model\<close> is the generation service: given the
  prompt, \<open>model.generate_content(prompt)\<close> followed by \<open>response.text\<close> yields the
  text or raises. Every failure path shows a notice and returns the empty list.
\<close>

definition generate_ideas ::
  "(ustr \<Rightarrow> exn + ustr) \<Rightarrow> (ustr set \<Rightarrow> ustr list) \<Rightarrow> ustr \<Rightarrow> ustr set \<Rightarrow> ustr set \<Rightarrow> int \<Rightarrow> gen_out" where
  "generate_ideas model order topic liked_ideas removed_ideas round_num =
     (if strip topic = [] then
        \<lparr>returned = [], notices = [Warning msg_no_topic], calls = []\<rparr>
      else
        let p = prompt order topic liked_ideas removed_ideas round_num in
        (case model p of
           Inl e \<Rightarrow>
             \<lparr>returned = [], notices = [Error (msg_exception @ str_exn e)], calls = [p]\<rparr>
         | Inr text \<Rightarrow>
             if text = [] then
               \<lparr>returned = [], notices = [Error msg_failed], calls = [p]\<rparr>
             else
               (case parse_ideas text of
                  Inl e \<Rightarrow>
                    \<lparr>returned = [], notices = [Error (msg_exception @ str_exn e)],
                     calls = [p]\<rparr>
                | Inr ideas \<Rightarrow>
                    if ideas = [] then
                      \<lparr>returned = [], notices = [Error msg_unparsed], calls = [p]\<rparr>
                    else
                      \<lparr>returned = take 5 ideas, notices = [], calls = [p]\<rparr>)))"

section \<open>The session state\<close>

text \<open>
  \<open>st.session_state\<close> is a dictionary; the program keeps five keys in it, each with
  values of one type. A key may be absent (\<open>None\<close>): \<open>key in st.session_state\<close> tests
  it and \<open>del\<close> removes it.
\<close>

record session_state =
  k_topic :: "ustr option"
  k_ideas :: "ustr list option"
  k_liked_ideas :: "ustr set option"
  k_removed_ideas :: "ustr set option"
  k_current_round :: "int option"

datatype key = Topic | Ideas | LikedIdeas | RemovedIdeas | CurrentRound

fun has_key :: "key \<Rightarrow> session_state \<Rightarrow> bool" where
  "has_key Topic st = (k_topic st \<noteq> None)"
| "has_key Ideas st = (k_ideas st \<noteq> None)"
| "has_key LikedIdeas st = (k_liked_ideas st \<noteq> None)"
| "has_key RemovedIdeas st = (k_removed_ideas st \<noteq> None)"
| "has_key CurrentRound st = (k_current_round st \<noteq> None)"

fun del_key :: "key \<Rightarrow> session_state \<Rightarrow> session_state" where
  "del_key Topic st = st\<lparr>k_topic := None\<rparr>"
| "del_key Ideas st = st\<lparr>k_ideas := None\<rparr>"
| "del_key LikedIdeas st = st\<lparr>k_liked_ideas := None\<rparr>"
| "del_key RemovedIdeas st = st\<lparr>k_removed_ideas := None\<rparr>"
| "del_key CurrentRound st = st\<lparr>k_current_round := None\<rparr>"

text \<open>
  \<open>reset_session_state\<close>, lines 19 to 29: the loop deletes the keys that are there,
  then the five assignments.
\<close>

definition reset_session_state :: "session_state \<Rightarrow> session_state" where
  "reset_session_state st =
     (let st1 = fold (\<lambda>key s. if has_key key s then del_key key s else s)
                  [Topic, Ideas, LikedIdeas, RemovedIdeas, CurrentRound] st
      in st1\<lparr>k_topic := Some [], k_ideas := Some [], k_liked_ideas := Some {},
             k_removed_ideas := Some {}, k_current_round := Some 1\<rparr>)"

text \<open>
  Lines 94 to 103 run at the start of every run of the script and give each missing
  key its default, so the rest of the script reads a session in which all five are
  there: the record \<open>session\<close>. \<open>stored\<close> is that session back in the dictionary.
\<close>

record session =
  topic :: ustr
  ideas :: "ustr list"
  liked_ideas :: "ustr set"
  removed_ideas :: "ustr set"
  current_round :: int

definition initialise :: "session_state \<Rightarrow> session" where
  "initialise st =
     \<lparr>topic = (case k_topic st of None \<Rightarrow> [] | Some t \<Rightarrow> t),
      ideas = (case k_ideas st of None \<Rightarrow> [] | Some xs \<Rightarrow> xs),
      liked_ideas = (case k_liked_ideas st of None \<Rightarrow> {} | Some A \<Rightarrow> A),
      removed_ideas = (case k_removed_ideas st of None \<Rightarrow> {} | Some A \<Rightarrow> A),
      current_round = (case k_current_round st of None \<Rightarrow> 1 | Some n \<Rightarrow> n)\<rparr>"

definition stored :: "session \<Rightarrow> session_state" where
  "stored s =
     \<lparr>k_topic = Some (topic s), k_ideas = Some (ideas s),
      k_liked_ideas = Some (liked_ideas s), k_removed_ideas = Some (removed_ideas s),
      k_current_round = Some (current_round s)\<rparr>"

section \<open>The interaction controller\<close>

text \<open>
  The script runs once per user action; a handler that changes the state ends with
  \<open>st.rerun()\<close>, which stops the run. \<open>click\<close> is the button pressed in this run, if
  any (a button that is not rendered cannot be pressed: its branch is not taken).
\<close>

datatype click =
  NoClick | ResetClick | GenerateClick | LikeClick nat | RemoveClick nat
  | RegenerateClick | RemoveLikedClick ustr

text \<open>
  Lines 141 to 152, the initial generation: the topic is stored, then the result of
  \<open>generate_ideas\<close>, and the round goes up if that result is not empty.
\<close>

definition initial_generation ::
  "(ustr \<Rightarrow> exn + ustr) \<Rightarrow> (ustr set \<Rightarrow> ustr list) \<Rightarrow> ustr \<Rightarrow> session \<Rightarrow> session" where
  "initial_generation model order topic_in s =
     (let s1 = s\<lparr>topic := topic_in\<rparr>;
          s2 = s1\<lparr>ideas := returned (generate_ideas model order topic_in
                    (liked_ideas s1) (removed_ideas s1) (current_round s1))\<rparr>
      in if ideas s2 \<noteq> [] then s2\<lparr>current_round := current_round s2 + 1\<rparr> else s2)"

text \<open>Lines 185 to 196, the regeneration: the state changes only on a result.\<close>

definition regenerate ::
  "(ustr \<Rightarrow> exn + ustr) \<Rightarrow> (ustr set \<Rightarrow> ustr list) \<Rightarrow> session \<Rightarrow> session" where
  "regenerate model order s =
     (let new_ideas = returned (generate_ideas model order (topic s)
                        (liked_ideas s) (removed_ideas s) (current_round s))
      in if new_ideas \<noteq> [] then
           s\<lparr>ideas := new_ideas, current_round := current_round s + 1\<rparr>
         else s)"

text \<open>
  Lines 169 to 180, the loop over \<open>enumerate(st.session_state.ideas, 1)\<close>: the first
  idea whose like or remove button was pressed changes the state and ends the run
  (\<open>Some\<close>); \<open>None\<close> when the loop ends with no button pressed.
\<close>

fun idea_buttons :: "click \<Rightarrow> (nat \<times> ustr) list \<Rightarrow> session \<Rightarrow> session option" where
  "idea_buttons c [] s = None"
| "idea_buttons c ((i, idea) # rest) s =
     (if c = LikeClick i then Some (s\<lparr>liked_ideas := insert idea (liked_ideas s)\<rparr>)
      else if c = RemoveClick i then
        Some (s\<lparr>removed_ideas := insert idea (removed_ideas s)\<rparr>)
      else idea_buttons c rest s)"

text \<open>
  Lines 199 to 209: one button per liked idea, keyed by the idea's text;
  \<open>liked_ideas.remove(idea)\<close> for the one pressed (the idea is in the set, so
  \<open>remove\<close> does not raise).
\<close>

definition remove_liked :: "ustr \<Rightarrow> session \<Rightarrow> session" where
  "remove_liked idea s = s\<lparr>liked_ideas := liked_ideas s - {idea}\<rparr>"

text \<open>
  One run of the script from line 93 on. \<open>typed\<close> is the content of the topic field,
  read only when the field is rendered (line 123: no topic stored yet).
\<close>

definition run ::
  "(ustr \<Rightarrow> exn + ustr) \<Rightarrow> (ustr set \<Rightarrow> ustr list) \<Rightarrow> ustr \<Rightarrow> click \<Rightarrow> session_state \<Rightarrow> session_state" where
  "run model order typed c st =
     (let s = initialise st in
      if c = ResetClick then reset_session_state (stored s)
      else
        let topic_v = (if topic s = [] then typed else []);
            generate_clicked = (if topic s = [] then c = GenerateClick else False)
        in
        if generate_clicked \<and> topic_v \<noteq> [] then
          stored (initial_generation model order topic_v s)
        else if ideas s \<noteq> [] then
          (case idea_buttons c (enumerate 1 (ideas s)) s of
             Some s' \<Rightarrow> stored s'
           | None \<Rightarrow>
               if c = RegenerateClick then stored (regenerate model order s)
               else if liked_ideas s \<noteq> {} then
                 (case c of
                    RemoveLikedClick idea \<Rightarrow>
                      if idea \<in> liked_ideas s then stored (remove_liked idea s)
                      else stored s
                  | _ \<Rightarrow> stored s)
               else stored s)
        else stored s)"

text \<open>
  What a run renders, from the stored state: the topic form iff no topic is stored
  (line 123), the ideas with their buttons iff the idea list is not empty (line 155).
\<close>

definition input_shown :: "session_state \<Rightarrow> bool" where
  "input_shown st = (topic (initialise st) = [])"

definition ideas_shown :: "session_state \<Rightarrow> bool" where
  "ideas_shown st = (ideas (initialise st) \<noteq> [])"

text \<open>The state of a session that has just begun: no key is there.\<close>

definition new_session :: session_state where
  "new_session =
     \<lparr>k_topic = None, k_ideas = None, k_liked_ideas = None, k_removed_ideas = None,
      k_current_round = None\<rparr>"

section \<open>The parsing policy as the specification words it\<close>

text \<open>
  \<open>after_first sep s\<close> is what follows the first occurrence of \<open>sep\<close> in \<open>s\<close>, and \<open>s\<close>
  itself when there is none.
\<close>

definition after_first :: "ustr \<Rightarrow> ustr \<Rightarrow> ustr" where
  "after_first sep s =
     (case str_find sep s of None \<Rightarrow> s | Some i \<Rightarrow> drop (i + length sep) s)"

text \<open>
  The specification's reading of the element of line 74: a leading marker is a number
  (one digit or more) at the start of the line, followed by a full stop and a space;
  \<open>leading_marker\<close> is its length. \<open>spec_strip_marker\<close> removes it if it is there and
  keeps the line otherwise; \<open>spec_parse\<close> is the parser with that element.
\<close>

definition leading_marker :: "ustr \<Rightarrow> nat option" where
  "leading_marker line =
     (let ds = takeWhile isdigit line; rest = dropWhile isdigit line
      in if ds \<noteq> [] \<and> take 2 rest = dot_space then Some (length ds + 2) else None)"

definition spec_strip_marker :: "ustr \<Rightarrow> ustr" where
  "spec_strip_marker line =
     (case leading_marker line of None \<Rightarrow> line | Some n \<Rightarrow> drop n line)"

definition spec_parse :: "ustr \<Rightarrow> ustr list" where
  "spec_parse text = map spec_strip_marker (filter starts_numbered (stripped_lines text))"

section \<open>Fixtures\<close>

text \<open>
  The response of the specification's example, a service that returns a fixed text
  whatever the prompt, one that raises, and one iteration order of sets (the sorted
  one).
\<close>

definition response_7 :: ustr where
  "response_7 =
     lit ''1. Build a widget'' @ [10] @ lit ''2. Sell a gadget'' @ [10]
     @ lit ''not numbered'' @ [10] @ lit ''3. Ship fast''"

definition mock_service :: "ustr \<Rightarrow> ustr \<Rightarrow> exn + ustr" where
  "mock_service text p = Inr text"

definition failing_service :: "ustr \<Rightarrow> ustr \<Rightarrow> exn + ustr" where
  "failing_service msg p = Inl (ServiceError msg)"

definition sorted_order :: "ustr set \<Rightarrow> ustr list" where
  "sorted_order A = sorted_list_of_set A"

text \<open>A response of seven numbered lines, and a session with one idea on screen, in round 2.\<close>

definition response_seven :: ustr where
  "response_seven =
     lit ''1. A'' @ [10] @ lit ''2. B'' @ [10] @ lit ''3. C'' @ [10] @ lit ''4. D'' @ [10]
     @ lit ''5. E'' @ [10] @ lit ''6. F'' @ [10] @ lit ''7. G''"

definition displayed_session :: session_state where
  "displayed_session =
     \<lparr>k_topic = Some (lit ''app''), k_ideas = Some [lit ''Old idea''],
      k_liked_ideas = Some {}, k_removed_ideas = Some {}, k_current_round = Some 2\<rparr>"

section \<open>Facts about the string functions\<close>

lemma isspace_32: "isspace 32" by (simp add: isspace_def in_ranges_def)
lemma isdigit_46: "\<not> isdigit 46" by (simp add: isdigit_def in_ranges_def)

lemma strip_empty_iff: "strip s = [] \<longleftrightarrow> (\<forall>c\<in>set s. isspace c)"
proof -
  have "strip s = [] \<longleftrightarrow> (\<forall>c\<in>set (dropWhile isspace s). isspace c)"
    by (simp add: strip_def dropWhile_eq_Nil_conv)
  also have "\<dots> \<longleftrightarrow> dropWhile isspace s = []"
  proof
    assume a: "\<forall>c\<in>set (dropWhile isspace s). isspace c"
    show "dropWhile isspace s = []"
    proof (rule ccontr)
      assume n: "dropWhile isspace s \<noteq> []"
      then have "\<not> isspace (hd (dropWhile isspace s))" by (rule hd_dropWhile)
      moreover have "hd (dropWhile isspace s) \<in> set (dropWhile isspace s)" using n by simp
      ultimately show False using a by blast
    qed
  next
    assume e: "dropWhile isspace s = []"
    show "\<forall>c\<in>set (dropWhile isspace s). isspace c" unfolding e by simp
  qed
  also have "\<dots> \<longleftrightarrow> (\<forall>c\<in>set s. isspace c)" by (simp add: dropWhile_eq_Nil_conv)
  finally show ?thesis .
qed

lemma strip_last: assumes "strip s \<noteq> []" shows "\<not> isspace (last (strip s))"
proof -
  let ?u = "dropWhile isspace (rev (dropWhile isspace s))"
  from assms have u: "?u \<noteq> []" by (simp add: strip_def)
  then have "\<not> isspace (hd ?u)" by (rule hd_dropWhile)
  moreover have "last (strip s) = hd ?u" using u by (simp add: strip_def last_rev)
  ultimately show ?thesis by simp
qed

lemma str_find_Some:
  "str_find sub s = Some i \<Longrightarrow> s = take i s @ sub @ drop (i + length sub) s"
proof (induction s arbitrary: i)
  case Nil
  then show ?case by (simp split: if_splits)
next
  case (Cons c s)
  show ?case
  proof (cases "take (length sub) (c # s) = sub")
    case True
    with Cons.prems have "i = 0" by simp
    moreover have "c # s = take (length sub) (c # s) @ drop (length sub) (c # s)" by (simp only: append_take_drop_id)
    ultimately show ?thesis using True by simp
  next
    case False
    with Cons.prems obtain j where j: "str_find sub s = Some j" "i = Suc j" by auto
    from Cons.IH[OF j(1)] show ?thesis using j(2) by simp
  qed
qed

lemma str_find_bound: "str_find sub s = Some i \<Longrightarrow> i + length sub \<le> length s"
proof (induction s arbitrary: i)
  case Nil then show ?case by (simp split: if_splits)
next
  case (Cons c s)
  show ?case
  proof (cases "take (length sub) (c # s) = sub")
    case True
    then have "length (take (length sub) (c # s)) = length sub" by (rule arg_cong)
    then have "length sub \<le> length (c # s)" unfolding length_take by arith
    with True Cons.prems show ?thesis by simp
  next
    case False
    with Cons.prems obtain j where j: "str_find sub s = Some j" "i = Suc j" by auto
    from Cons.IH[OF j(1)] show ?thesis using j(2) by simp
  qed
qed

lemma str_find_None: "str_find sub s = None \<Longrightarrow> s \<noteq> p @ sub @ r"
proof (induction s arbitrary: p)
  case Nil then show ?case by (auto split: if_splits)
next
  case (Cons c s)
  from Cons.prems have ne: "take (length sub) (c # s) \<noteq> sub" and rec: "str_find sub s = None"
    by (auto split: if_splits)
  show ?case
  proof (cases p)
    case Nil
    show ?thesis
    proof
      assume "c # s = p @ sub @ r"
      then have "take (length sub) (c # s) = sub" using Nil by simp
      with ne show False by simp
    qed
  next
    case (Cons a p')
    show ?thesis
    proof
      assume "c # s = p @ sub @ r"
      then have "s = p' @ sub @ r" using Cons by simp
      with Cons.IH[OF rec, of p'] show False by simp
    qed
  qed
qed

lemma contains_iff: "contains sub s \<longleftrightarrow> (\<exists>p r. s = p @ sub @ r)"
proof
  assume "contains sub s"
  then obtain i where "str_find sub s = Some i" by (auto simp: contains_def)
  from str_find_Some[OF this] show "\<exists>p r. s = p @ sub @ r" by blast
next
  assume "\<exists>p r. s = p @ sub @ r"
  then obtain p r where s: "s = p @ sub @ r" by blast
  show "contains sub s"
    unfolding contains_def using str_find_None[of sub s p r] s by blast
qed

lemma str_find_first:
  "\<not> contains dot_space (p @ [46]) \<Longrightarrow> str_find dot_space (p @ dot_space @ r) = Some (length p)"
proof (induction p)
  case Nil
  then show ?case by (simp add: dot_space_def)
next
  case (Cons a p)
  from Cons.prems have n: "str_find dot_space ((a # p) @ [46]) = None" by (simp add: contains_def)
  then have h: "take 2 (a # p @ [46]) \<noteq> dot_space" and rec: "\<not> contains dot_space (p @ [46])"
    by (auto simp: contains_def dot_space_def split: if_splits)
  have "take 2 (a # p @ dot_space @ r) \<noteq> dot_space"
    using h by (cases p) (auto simp: dot_space_def)
  then show ?case using Cons.IH[OF rec] by (simp add: dot_space_def)
qed

lemmas parse_eval =
  lit_def parse_ideas_def stripped_lines_def split_char_def strip_def isspace_def
  in_ranges_def starts_numbered_def isdigit_def strip_number_def contains_def
  dot_space_def split1_def index_def

lemma strip_number_eq: "strip_number idea = Inr (after_first dot_space idea)"
  by (cases "str_find dot_space idea")
     (simp_all add: strip_number_def contains_def split1_def index_def after_first_def)

lemma numbered_ideas_eq:
  "numbered_ideas ls = Inr (map (after_first dot_space) (filter starts_numbered ls))"
  by (induction ls) (simp_all add: strip_number_eq)

lemma parse_ideas_eq:
  "parse_ideas text =
     Inr (map (after_first dot_space) (filter starts_numbered (stripped_lines text)))"
  by (simp add: parse_ideas_def numbered_ideas_eq)

lemma after_first_none: "\<not> contains sep s \<Longrightarrow> after_first sep s = s"
  by (simp add: contains_def after_first_def)

lemma after_first_split:
  "\<not> contains dot_space (p @ [46]) \<Longrightarrow> after_first dot_space (p @ dot_space @ r) = r"
  by (simp add: after_first_def str_find_first) 

lemma digits_no_dot_space:
  "list_all isdigit ds \<Longrightarrow> \<not> contains dot_space (ds @ [46])"
proof (induction ds)
  case Nil
  then show ?case by (simp add: contains_def dot_space_def)
next
  case (Cons d ds)
  then have "d \<noteq> 46" using isdigit_46 by auto
  with Cons show ?case by (simp add: contains_def dot_space_def)
qed

lemma after_first_nonempty:
  assumes "s \<noteq> []" and "last s \<noteq> 32"
  shows "after_first dot_space s \<noteq> []"
proof (cases "str_find dot_space s")
  case None
  with assms show ?thesis by (simp add: after_first_def)
next
  case (Some i)
  from str_find_Some[OF Some] have s: "s = take i s @ dot_space @ drop (i + 2) s"
    by (simp add: dot_space_def)
  show ?thesis
  proof
    assume "after_first dot_space s = []"
    with Some have "drop (i + 2) s = []" by (simp add: after_first_def dot_space_def)
    with s have "s = take i s @ [46, 32]" by (simp add: dot_space_def)
    then have "last s = last (take i s @ [46, 32])" by simp
    then have "last s = 32" by (simp only: last_appendR last.simps) simp
    with assms show False by simp
  qed
qed

lemma stripped_lines_elem:
  assumes "x \<in> set (stripped_lines text)"
  shows "x \<noteq> [] \<and> last x \<noteq> 32"
proof -
  from assms obtain l where x: "x = strip l" and ne: "strip l \<noteq> []"
    by (auto simp: stripped_lines_def)
  from strip_last[OF ne] isspace_32 have "last (strip l) \<noteq> 32" by metis
  with x ne show ?thesis by simp
qed

lemma parsed_nonempty:
  assumes "parse_ideas text = Inr xs" and "x \<in> set xs"
  shows "x \<noteq> []"
proof -
  from assms obtain l where l: "l \<in> set (stripped_lines text)" and x: "x = after_first dot_space l"
    by (auto simp: parse_ideas_eq)
  from stripped_lines_elem[OF l] show ?thesis unfolding x by (simp add: after_first_nonempty)
qed

lemma returned_generate_ideas:
  "returned (generate_ideas model order t liked removed n) =
     (if strip t = [] then []
      else case model (prompt order t liked removed n) of
             Inl e \<Rightarrow> []
           | Inr text \<Rightarrow>
               take 5 (map (after_first dot_space) (filter starts_numbered (stripped_lines text))))"
proof -
  have "stripped_lines [] = []"
    by (simp add: stripped_lines_def split_char_def strip_def)
  then show ?thesis
    by (simp add: generate_ideas_def parse_ideas_eq Let_def split: sum.splits)
qed

lemma parse_response_7: "parse_ideas response_7 = Inr [lit ''Build a widget'', lit ''Sell a gadget'', lit ''Ship fast'']"
  by (simp add: response_7_def parse_eval)

lemma after_first_marker:
  assumes "leading_marker line \<noteq> None"
  shows "after_first dot_space line = spec_strip_marker line"
proof -
  let ?ds = "takeWhile isdigit line"
  let ?rest = "dropWhile isdigit line"
  from assms have ds: "?ds \<noteq> []" and two: "take 2 ?rest = dot_space"
    by (auto simp: leading_marker_def Let_def split: if_splits)
  have rest: "?rest = dot_space @ drop 2 ?rest"
    using append_take_drop_id[of 2 ?rest] two by simp
  have line: "line = ?ds @ dot_space @ drop 2 ?rest"
    using takeWhile_dropWhile_id[of isdigit line] rest by simp
  have "list_all isdigit ?ds"
    by (auto simp: list_all_iff dest: set_takeWhileD)
  then have "\<not> contains dot_space (?ds @ [46])" by (rule digits_no_dot_space)
  then have "after_first dot_space (?ds @ dot_space @ drop 2 ?rest) = drop 2 ?rest"
    by (rule after_first_split)
  with line have a: "after_first dot_space line = drop 2 ?rest" by simp
  have "drop (length ?ds + 2) line = drop 2 ?rest"
    unfolding dropWhile_eq_drop drop_drop by (simp add: add.commute)
  with ds two have "spec_strip_marker line = drop 2 ?rest"
    by (simp add: spec_strip_marker_def leading_marker_def Let_def)
  with a show ?thesis by simp
qed

section \<open>Facts about the controller\<close>

lemma idea_buttons_other:
  "(\<And>i. c \<noteq> LikeClick i) \<Longrightarrow> (\<And>i. c \<noteq> RemoveClick i) \<Longrightarrow> idea_buttons c xs s = None"
  by (induction xs) auto

lemma idea_buttons_like:
  "n \<le> i \<Longrightarrow> i < n + length xs \<Longrightarrow>
   idea_buttons (LikeClick i) (enumerate n xs) s =
     Some (s\<lparr>liked_ideas := insert (xs ! (i - n)) (liked_ideas s)\<rparr>)"
proof (induction xs arbitrary: n)
  case Nil
  then show ?case by simp
next
  case (Cons x xs)
  show ?case
  proof (cases "i = n")
    case True
    then show ?thesis by simp
  next
    case False
    with Cons.prems have "Suc n \<le> i" "i < Suc n + length xs" by simp_all
    from Cons.IH[OF this] False Cons.prems show ?thesis
      by (simp add: Suc_diff_le nth_Cons')
  qed
qed

lemma initialise_stored: "initialise (stored s) = s"
  by (simp add: initialise_def stored_def)

lemma reset_value:
  "reset_session_state st =
     \<lparr>k_topic = Some [], k_ideas = Some [], k_liked_ideas = Some {},
      k_removed_ideas = Some {}, k_current_round = Some 1\<rparr>"
  by (cases st) (simp add: reset_session_state_def)

lemma run_generate:
  "topic (initialise st) = [] \<Longrightarrow> typed \<noteq> [] \<Longrightarrow>
   run model order typed GenerateClick st =
     stored (initial_generation model order typed (initialise st))"
  by (simp add: run_def Let_def)

lemma run_regenerate:
  "ideas (initialise st) \<noteq> [] \<Longrightarrow>
   run model order typed RegenerateClick st = stored (regenerate model order (initialise st))"
  by (simp add: run_def Let_def idea_buttons_other)

lemma run_like:
  "1 \<le> i \<Longrightarrow> i \<le> length (ideas (initialise st)) \<Longrightarrow>
   run model order typed (LikeClick i) st =
     stored ((initialise st)\<lparr>liked_ideas :=
       insert (ideas (initialise st) ! (i - 1)) (liked_ideas (initialise st))\<rparr>)"
proof -
  assume i: "1 \<le> i" "i \<le> length (ideas (initialise st))"
  then have ne: "ideas (initialise st) \<noteq> []" by auto
  from i have "idea_buttons (LikeClick i) (enumerate 1 (ideas (initialise st))) (initialise st) =
      Some ((initialise st)\<lparr>liked_ideas :=
        insert (ideas (initialise st) ! (i - 1)) (liked_ideas (initialise st))\<rparr>)"
    by (intro idea_buttons_like) simp_all
  with ne show ?thesis by (simp add: run_def Let_def)
qed

lemma run_remove_liked:
  "ideas (initialise st) \<noteq> [] \<Longrightarrow> x \<in> liked_ideas (initialise st) \<Longrightarrow>
   run model order typed (RemoveLikedClick x) st = stored (remove_liked x (initialise st))"
proof -
  assume a: "ideas (initialise st) \<noteq> []" "x \<in> liked_ideas (initialise st)"
  then have "liked_ideas (initialise st) \<noteq> {}" by auto
  with a show ?thesis by (simp add: run_def Let_def idea_buttons_other)
qed

section \<open>The parser\<close>

text \<open>
  Claim C1: the parser splits the response into lines, drops the blank ones, keeps a
  line only if one of its first two characters is a digit, and removes from each kept
  line a leading \<open>N. \<close> marker if it has one, keeping the line as it is otherwise.
  The code does not do the last part. Line 74 cuts a kept line at its first \<open>. \<close>
  wherever that is, so a kept line without a leading marker and with a \<open>. \<close>
  further on loses the text of the idea before it: \<open>1) Foo. Bar\<close> comes back as
  \<open>Bar\<close>, where the specification's parser keeps the line whole, and so do
  \<open>1.Foo bar. Baz qux\<close> and \<open>1: Use A.I. tools for tutoring\<close>. On the
  last text below, the code does what the claim says: the lines are split at
  newlines and stripped, the blank ones and \<open>Ideas:\<close> and \<open>ab4. No\<close> (digit in
  third place) are dropped, \<open>12. Go\<close> loses its marker, and \<open>x3 apps\<close> (digit in
  second place) and \<open>5) Last\<close> are kept as they are.
\<close>

theorem parse_ideas_drops_idea_text:
  "parse_ideas (lit ''1) Foo. Bar'') = Inr [lit ''Bar'']
   \<and> spec_parse (lit ''1) Foo. Bar'') = [lit ''1) Foo. Bar'']
   \<and> parse_ideas (lit ''1.Foo bar. Baz qux'') = Inr [lit ''Baz qux'']
   \<and> spec_parse (lit ''1.Foo bar. Baz qux'') = [lit ''1.Foo bar. Baz qux'']
   \<and> parse_ideas (lit ''1: Use A.I. tools for tutoring'') = Inr [lit ''tools for tutoring'']
   \<and> spec_parse (lit ''1: Use A.I. tools for tutoring'') =
       [lit ''1: Use A.I. tools for tutoring'']
   \<and> parse_ideas
        (lit ''Ideas:'' @ [10, 10] @ lit ''  12. Go '' @ [10] @ lit ''x3 apps'' @ [10]
         @ lit ''ab4. No'' @ [10] @ lit ''   '' @ [10] @ lit ''5) Last'') =
       Inr [lit ''Go'', lit ''x3 apps'', lit ''5) Last'']
   \<and> spec_parse
        (lit ''Ideas:'' @ [10, 10] @ lit ''  12. Go '' @ [10] @ lit ''x3 apps'' @ [10]
         @ lit ''ab4. No'' @ [10] @ lit ''   '' @ [10] @ lit ''5) Last'') =
       [lit ''Go'', lit ''x3 apps'', lit ''5) Last'']"
  by (simp add: parse_eval spec_parse_def spec_strip_marker_def leading_marker_def)

section \<open>The round counter\<close>

text \<open>
  Claim C2: a generation, initial or not, adds one to the round counter when its
  result is not empty and leaves the counter alone when it is empty. From round 1, a
  successful initial generation gives round 2, a failed regeneration after it leaves 2,
  and a successful regeneration after that gives 3.
\<close>

theorem round_counter_steps:
  assumes "topic (initialise st) = []" and "current_round (initialise st) = 1"
    and "typed \<noteq> []"
    and "returned (generate_ideas model1 order1 typed (liked_ideas (initialise st))
           (removed_ideas (initialise st)) 1) \<noteq> []"
    and "returned (generate_ideas model2 order2 typed (liked_ideas (initialise st))
           (removed_ideas (initialise st)) 2) = []"
    and "returned (generate_ideas model3 order3 typed (liked_ideas (initialise st))
           (removed_ideas (initialise st)) 2) \<noteq> []"
  shows "(\<forall>m ord t s. current_round (initial_generation m ord t s) =
            current_round s +
              (if returned (generate_ideas m ord t (liked_ideas s) (removed_ideas s)
                    (current_round s)) = [] then 0 else 1))
       \<and> (\<forall>m ord s. current_round (regenerate m ord s) =
            current_round s +
              (if returned (generate_ideas m ord (topic s) (liked_ideas s)
                    (removed_ideas s) (current_round s)) = [] then 0 else 1))
       \<and> (let st1 = run model1 order1 typed GenerateClick st;
              st2 = run model2 order2 typed2 RegenerateClick st1;
              st3 = run model3 order3 typed3 RegenerateClick st2
          in k_current_round st1 = Some 2 \<and> k_current_round st2 = Some 2
             \<and> k_current_round st3 = Some 3)"
proof -
  let ?s = "initialise st"
  let ?s1 = "initial_generation model1 order1 typed ?s"
  let ?s2 = "regenerate model2 order2 ?s1"
  let ?s3 = "regenerate model3 order3 ?s2"
  have g: "\<forall>m ord t s. current_round (initial_generation m ord t s) =
            current_round s +
              (if returned (generate_ideas m ord t (liked_ideas s) (removed_ideas s)
                    (current_round s)) = [] then 0 else 1)"
    by (simp add: initial_generation_def Let_def)
  have r: "\<forall>m ord s. current_round (regenerate m ord s) =
            current_round s +
              (if returned (generate_ideas m ord (topic s) (liked_ideas s)
                    (removed_ideas s) (current_round s)) = [] then 0 else 1)"
    by (simp add: regenerate_def Let_def)
  have s1: "?s1 = ?s\<lparr>topic := typed,
      ideas := returned (generate_ideas model1 order1 typed (liked_ideas ?s)
                 (removed_ideas ?s) 1),
      current_round := 2\<rparr>"
    using assms(2,4) by (simp add: initial_generation_def Let_def)
  have s2: "?s2 = ?s1"
    using assms(5) by (simp add: regenerate_def Let_def s1)
  have s3: "?s3 = ?s1\<lparr>ideas := returned (generate_ideas model3 order3 typed (liked_ideas ?s)
                 (removed_ideas ?s) 2),
      current_round := 3\<rparr>"
  proof -
    have "?s3 = regenerate model3 order3 ?s1" by (simp only: s2)
    then show ?thesis unfolding s1 using assms(6) by (simp add: regenerate_def Let_def)
  qed
  have i1: "ideas ?s1 \<noteq> []" using assms(4) by (simp add: s1)
  have st1: "run model1 order1 typed GenerateClick st = stored ?s1"
    using assms(1,3) by (rule run_generate)
  have st2: "run model2 order2 typed2 RegenerateClick (stored ?s1) = stored ?s2"
    using i1 by (simp add: run_regenerate initialise_stored)
  have st3: "run model3 order3 typed3 RegenerateClick (stored ?s2) = stored ?s3"
    using i1 by (simp add: run_regenerate initialise_stored s2)
  have "k_current_round (stored ?s1) = Some 2" by (simp add: s1 stored_def)
  moreover have "k_current_round (stored ?s2) = Some 2"
    unfolding s2 by (simp add: s1 stored_def)
  moreover have "k_current_round (stored ?s3) = Some 3"
    unfolding s3 by (simp add: stored_def)
  ultimately show ?thesis using g r by (simp add: Let_def st1 st2 st3)
qed

theorem round_counter_steps_witness:
  "topic (initialise new_session) = [] \<and> current_round (initialise new_session) = 1
   \<and> lit ''app'' \<noteq> []
   \<and> returned (generate_ideas (mock_service response_7) sorted_order (lit ''app'')
        {} {} 1) \<noteq> []
   \<and> returned (generate_ideas (failing_service (lit ''quota'')) sorted_order (lit ''app'')
        {} {} 2) = []
   \<and> returned (generate_ideas (mock_service (lit ''1. Go'')) sorted_order (lit ''app'')
        {} {} 2) \<noteq> []
   \<and> k_current_round (run (mock_service response_7) sorted_order (lit ''app'')
        GenerateClick new_session) = Some 2
   \<and> k_current_round
        (run (failing_service (lit ''quota'')) sorted_order [] RegenerateClick
          (run (mock_service response_7) sorted_order (lit ''app'')
            GenerateClick new_session)) = Some 2
   \<and> k_current_round
        (run (mock_service (lit ''1. Go'')) sorted_order [] RegenerateClick
          (run (failing_service (lit ''quota'')) sorted_order [] RegenerateClick
            (run (mock_service response_7) sorted_order (lit ''app'')
              GenerateClick new_session))) = Some 3"
proof -
  have a: "topic (initialise new_session) = []" "current_round (initialise new_session) = 1"
    "liked_ideas (initialise new_session) = {}" "removed_ideas (initialise new_session) = {}"
    by (simp_all add: initialise_def new_session_def)
  have t: "lit ''app'' \<noteq> []" "strip (lit ''app'') \<noteq> []"
    by (simp_all add: lit_def strip_def isspace_def in_ranges_def)
  have g1: "returned (generate_ideas (mock_service response_7) sorted_order (lit ''app'')
        {} {} 1) \<noteq> []"
    using parse_response_7 by (simp add: returned_generate_ideas t mock_service_def parse_ideas_eq)
  have g2: "returned (generate_ideas (failing_service (lit ''quota'')) sorted_order
        (lit ''app'') {} {} 2) = []"
    by (simp add: returned_generate_ideas failing_service_def)
  have p: "parse_ideas (lit ''1. Go'') = Inr [lit ''Go'']" by (simp add: parse_eval)
  have g3: "returned (generate_ideas (mock_service (lit ''1. Go'')) sorted_order (lit ''app'')
        {} {} 2) \<noteq> []"
    using p by (simp add: returned_generate_ideas t mock_service_def parse_ideas_eq)
  from round_counter_steps
         [of new_session "lit ''app''" "mock_service response_7" sorted_order
             "failing_service (lit ''quota'')" sorted_order
             "mock_service (lit ''1. Go'')" sorted_order "[]" "[]"]
       a t g1 g2 g3
  show ?thesis by (simp add: Let_def)
qed

section \<open>The initial generation\<close>

text \<open>
  Claim C3 says that an initial generation with an empty result changes no field and
  leaves the topic form on screen. The code stores the topic before it calls the
  generator (line 143): in a new session, a topic of three spaces, or the topic
  \<open>app\<close> with a service that raises, is stored although no idea came back. The
  topic form is then no longer rendered, and neither are the ideas.
\<close>

theorem failed_initial_generation_stores_topic:
  "stored (initialise new_session) =
     \<lparr>k_topic = Some [], k_ideas = Some [], k_liked_ideas = Some {},
      k_removed_ideas = Some {}, k_current_round = Some 1\<rparr>
   \<and> returned (generate_ideas model order (lit ''   '') {} {} 1) = []
   \<and> run model order (lit ''   '') GenerateClick new_session =
     \<lparr>k_topic = Some (lit ''   ''), k_ideas = Some [], k_liked_ideas = Some {},
      k_removed_ideas = Some {}, k_current_round = Some 1\<rparr>
   \<and> \<not> input_shown (run model order (lit ''   '') GenerateClick new_session)
   \<and> \<not> ideas_shown (run model order (lit ''   '') GenerateClick new_session)
   \<and> run (failing_service msg) order (lit ''app'') GenerateClick new_session =
     \<lparr>k_topic = Some (lit ''app''), k_ideas = Some [], k_liked_ideas = Some {},
      k_removed_ideas = Some {}, k_current_round = Some 1\<rparr>
   \<and> \<not> input_shown (run (failing_service msg) order (lit ''app'') GenerateClick new_session)"
proof -
  have b: "strip (lit ''   '') = []" "lit ''   '' \<noteq> []" "lit ''app'' \<noteq> []"
    by (simp_all add: lit_def strip_def isspace_def in_ranges_def)
  have g: "returned (generate_ideas model order (lit ''   '') {} {} 1) = []"
    by (simp add: returned_generate_ideas b)
  have f: "returned (generate_ideas (failing_service msg) order (lit ''app'') {} {} 1) = []"
    by (simp add: returned_generate_ideas failing_service_def)
  have r1: "run model order (lit ''   '') GenerateClick new_session =
     \<lparr>k_topic = Some (lit ''   ''), k_ideas = Some [], k_liked_ideas = Some {},
      k_removed_ideas = Some {}, k_current_round = Some 1\<rparr>"
    using b(2) g
    by (simp add: run_def initial_generation_def Let_def initialise_def new_session_def
        stored_def)
  have r2: "run (failing_service msg) order (lit ''app'') GenerateClick new_session =
     \<lparr>k_topic = Some (lit ''app''), k_ideas = Some [], k_liked_ideas = Some {},
      k_removed_ideas = Some {}, k_current_round = Some 1\<rparr>"
    using b(3) f
    by (simp add: run_def initial_generation_def Let_def initialise_def new_session_def
        stored_def)
  have i: "stored (initialise new_session) =
     \<lparr>k_topic = Some [], k_ideas = Some [], k_liked_ideas = Some {},
      k_removed_ideas = Some {}, k_current_round = Some 1\<rparr>"
    by (simp add: initialise_def new_session_def stored_def)
  have n1: "\<not> input_shown (run model order (lit ''   '') GenerateClick new_session)"
    unfolding r1 using b(2) by (simp add: input_shown_def initialise_def)
  have n2: "\<not> ideas_shown (run model order (lit ''   '') GenerateClick new_session)"
    unfolding r1 by (simp add: ideas_shown_def initialise_def)
  have n3: "\<not> input_shown (run (failing_service msg) order (lit ''app'') GenerateClick
      new_session)"
    unfolding r2 using b(3) by (simp add: input_shown_def initialise_def)
  show ?thesis by (intro conjI i g r1 n1 n2 r2 n3)
qed

section \<open>The regeneration\<close>

text \<open>
  Claim C4: when the ideas are on screen and the regenerate button is pressed, an
  empty result leaves the whole session as it was, and a result that is not empty
  replaces the idea list by it and adds one to the round counter (nothing else
  changes).
\<close>

theorem regenerate_keeps_or_replaces:
  assumes "ideas (initialise st) \<noteq> []"
  shows "let s = initialise st;
             new_ideas = returned (generate_ideas model order (topic s) (liked_ideas s)
                           (removed_ideas s) (current_round s))
         in run model order typed RegenerateClick st =
              (if new_ideas = [] then stored s
               else stored (s\<lparr>ideas := new_ideas, current_round := current_round s + 1\<rparr>))"
  using assms by (simp add: run_regenerate regenerate_def Let_def)

theorem regenerate_keeps_or_replaces_witness:
  "ideas (initialise displayed_session) \<noteq> []
   \<and> run (failing_service (lit ''quota'')) sorted_order [] RegenerateClick displayed_session =
       displayed_session
   \<and> run (mock_service response_7) sorted_order [] RegenerateClick displayed_session =
       \<lparr>k_topic = Some (lit ''app''),
        k_ideas = Some [lit ''Build a widget'', lit ''Sell a gadget'', lit ''Ship fast''],
        k_liked_ideas = Some {}, k_removed_ideas = Some {}, k_current_round = Some 3\<rparr>"
proof -
  have i: "initialise displayed_session =
      \<lparr>topic = lit ''app'', ideas = [lit ''Old idea''], liked_ideas = {},
       removed_ideas = {}, current_round = 2\<rparr>"
    by (simp add: initialise_def displayed_session_def)
  have ne: "ideas (initialise displayed_session) \<noteq> []" by (simp add: i)
  have t: "strip (lit ''app'') \<noteq> []"
    by (simp add: lit_def strip_def isspace_def in_ranges_def)
  have g1: "returned (generate_ideas (failing_service (lit ''quota'')) sorted_order
        (lit ''app'') {} {} 2) = []"
    by (simp add: returned_generate_ideas failing_service_def)
  have g2: "returned (generate_ideas (mock_service response_7) sorted_order
        (lit ''app'') {} {} 2) =
        [lit ''Build a widget'', lit ''Sell a gadget'', lit ''Ship fast'']"
    using parse_response_7 by (simp add: returned_generate_ideas t mock_service_def parse_ideas_eq)
  have a1: "run (failing_service (lit ''quota'')) sorted_order [] RegenerateClick
      displayed_session =
      stored \<lparr>topic = lit ''app'', ideas = [lit ''Old idea''], liked_ideas = {},
        removed_ideas = {}, current_round = 2\<rparr>"
    using regenerate_keeps_or_replaces
            [OF ne, of "failing_service (lit ''quota'')" sorted_order "[]"]
    by (simp add: Let_def i g1)
  have a2: "run (mock_service response_7) sorted_order [] RegenerateClick displayed_session =
      stored \<lparr>topic = lit ''app'',
        ideas = [lit ''Build a widget'', lit ''Sell a gadget'', lit ''Ship fast''],
        liked_ideas = {}, removed_ideas = {}, current_round = 3\<rparr>"
    using regenerate_keeps_or_replaces
            [OF ne, of "mock_service response_7" sorted_order "[]"]
    by (simp add: Let_def i g2)
  show ?thesis unfolding a1 a2 using ne by (simp add: stored_def displayed_session_def)
qed

section \<open>The bounds on the result of \<open>generate_ideas\<close>\<close>

text \<open>
  Claim C5: \<open>generate_ideas\<close> returns at most five ideas, for every topic (empty or
  not), every service, every feedback and every round; and for a topic with a
  character that is not whitespace and a service that answers with a text, what it
  returns is the first five items of the list parsed from that text, in order (all of
  them when there are five or fewer).
\<close>

theorem generate_ideas_first_5:
  "length (returned (generate_ideas model order t liked removed n)) \<le> 5
   \<and> (\<forall>text ideas.
         (\<exists>c\<in>set t. \<not> isspace c) \<and> model (prompt order t liked removed n) = Inr text
         \<and> parse_ideas text = Inr ideas \<longrightarrow>
         returned (generate_ideas model order t liked removed n) = take 5 ideas)"
proof -
  have "length (returned (generate_ideas model order t liked removed n)) \<le> 5"
    by (simp add: returned_generate_ideas split: sum.splits)
  moreover have "returned (generate_ideas model order t liked removed n) = take 5 ideas"
    if "\<exists>c\<in>set t. \<not> isspace c" and "model (prompt order t liked removed n) = Inr resp"
      and "parse_ideas resp = Inr ideas" for resp ideas
  proof -
    from that(1) have "strip t \<noteq> []" by (simp add: strip_empty_iff)
    moreover from that(3) have
      "ideas = map (after_first dot_space) (filter starts_numbered (stripped_lines resp))"
      by (simp add: parse_ideas_eq)
    ultimately show ?thesis using that(2) by (simp add: returned_generate_ideas)
  qed
  ultimately show ?thesis by blast
qed

theorem generate_ideas_first_5_witness:
  "(\<exists>c\<in>set (lit ''app''). \<not> isspace c)
   \<and> mock_service response_seven (prompt sorted_order (lit ''app'') {} {} 1) =
       Inr response_seven
   \<and> parse_ideas response_seven =
       Inr [lit ''A'', lit ''B'', lit ''C'', lit ''D'', lit ''E'', lit ''F'', lit ''G'']
   \<and> returned (generate_ideas (mock_service response_seven) sorted_order (lit ''app'')
        {} {} 1) = [lit ''A'', lit ''B'', lit ''C'', lit ''D'', lit ''E'']
   \<and> length (returned (generate_ideas (mock_service response_seven) sorted_order
        (lit ''app'') {} {} 1)) = 5"
proof -
  have a: "\<exists>c\<in>set (lit ''app''). \<not> isspace c"
    by (simp add: lit_def isspace_def in_ranges_def)
  have b: "mock_service response_seven (prompt sorted_order (lit ''app'') {} {} 1) =
      Inr response_seven"
    by (simp add: mock_service_def)
  have p: "parse_ideas response_seven =
      Inr [lit ''A'', lit ''B'', lit ''C'', lit ''D'', lit ''E'', lit ''F'', lit ''G'']"
    by (simp add: response_seven_def parse_eval)
  from generate_ideas_first_5
         [of "mock_service response_seven" sorted_order "lit ''app''" "{}" "{}" 1] a b p
  have "returned (generate_ideas (mock_service response_seven) sorted_order (lit ''app'')
        {} {} 1) = take 5 [lit ''A'', lit ''B'', lit ''C'', lit ''D'', lit ''E'', lit ''F'', lit ''G'']"
    by blast
  then have r: "returned (generate_ideas (mock_service response_seven) sorted_order
        (lit ''app'') {} {} 1) = [lit ''A'', lit ''B'', lit ''C'', lit ''D'', lit ''E'']"
    by simp
  from a b p r show ?thesis by simp
qed

text \<open>
  Claim C6: for a topic that is empty or made of whitespace only, \<open>generate_ideas\<close>
  returns the empty list, shows one warning and does not call the service, whatever
  the round and the feedback sets.
\<close>

theorem blank_topic_warning_no_call:
  assumes "\<forall>c\<in>set t. isspace c"
  shows "generate_ideas model order t liked removed n =
           \<lparr>returned = [], notices = [Warning msg_no_topic], calls = []\<rparr>"
  using assms by (simp add: generate_ideas_def strip_empty_iff)

theorem blank_topic_warning_no_call_witness:
  "list_all isspace (lit ''   '')
   \<and> generate_ideas (mock_service response_7) sorted_order (lit ''   '') {} {} 3 =
       \<lparr>returned = [], notices = [Warning msg_no_topic], calls = []\<rparr>
   \<and> generate_ideas (mock_service response_7) sorted_order [] {} {} 1 =
       \<lparr>returned = [], notices = [Warning msg_no_topic], calls = []\<rparr>"
proof -
  have a: "list_all isspace (lit ''   '')"
    by (simp add: lit_def isspace_def in_ranges_def)
  then have b: "\<forall>c\<in>set (lit ''   ''). isspace c" by (simp add: list_all_iff)
  have c: "\<forall>c\<in>set ([] :: ustr). isspace c" by simp
  from blank_topic_warning_no_call [OF b, of "mock_service response_7" sorted_order "{}" "{}" 3]
    blank_topic_warning_no_call [OF c, of "mock_service response_7" sorted_order "{}" "{}" 1] a
  show ?thesis by simp
qed

text \<open>
  Claim C7, as the specification states it, for any topic that is not empty: the
  topic of one space is not empty, and \<open>generate_ideas\<close> returns nothing for it,
  whatever the service would answer.
\<close>

theorem fixed_response_blank_topic_counterexample:
  "lit '' '' \<noteq> []
   \<and> returned (generate_ideas (mock_service response_7) sorted_order (lit '' '') {} {} 1) = []
   \<and> returned (generate_ideas (mock_service response_7) sorted_order (lit '' '') {} {} 1)
       \<noteq> [lit ''Build a widget'', lit ''Sell a gadget'', lit ''Ship fast'']"
  by (simp add: returned_generate_ideas lit_def strip_def isspace_def in_ranges_def)

text \<open>
  Claim C7, amended: for a topic with a character that is not whitespace and the
  service response of the example, \<open>generate_ideas\<close> returns the three numbered
  ideas, in order and without their numbers.
\<close>

theorem fixed_response_three_ideas:
  assumes "\<exists>c\<in>set t. \<not> isspace c"
    and "model (prompt order t liked removed n) = Inr response_7"
  shows "returned (generate_ideas model order t liked removed n) =
           [lit ''Build a widget'', lit ''Sell a gadget'', lit ''Ship fast'']"
proof -
  from assms(1) have s: "strip t \<noteq> []" by (simp add: strip_empty_iff)
  have m: "map (after_first dot_space) (filter starts_numbered (stripped_lines response_7)) =
      [lit ''Build a widget'', lit ''Sell a gadget'', lit ''Ship fast'']"
    using parse_response_7 by (simp add: parse_ideas_eq)
  show ?thesis by (simp add: returned_generate_ideas s assms(2) m)
qed

theorem fixed_response_three_ideas_witness:
  "(\<exists>c\<in>set (lit ''app''). \<not> isspace c)
   \<and> mock_service response_7 (prompt sorted_order (lit ''app'') {} {} 1) = Inr response_7
   \<and> returned (generate_ideas (mock_service response_7) sorted_order (lit ''app'') {} {} 1) =
       [lit ''Build a widget'', lit ''Sell a gadget'', lit ''Ship fast'']"
proof -
  have a: "\<exists>c\<in>set (lit ''app''). \<not> isspace c"
    by (simp add: lit_def isspace_def in_ranges_def)
  have b: "mock_service response_7 (prompt sorted_order (lit ''app'') {} {} 1) = Inr response_7"
    by (simp add: mock_service_def)
  from fixed_response_three_ideas
         [of "lit ''app''" "mock_service response_7" sorted_order "{}" "{}" 1, OF a b] a b
  show ?thesis by simp
qed

text \<open>
  Claim C10: no string that \<open>generate_ideas\<close> returns is empty. A kept line is
  stripped and not empty, so it does not end in a space, and so its first \<open>. \<close> is
  not at its end.
\<close>

theorem generated_ideas_nonempty:
  "\<forall>x\<in>set (returned (generate_ideas model order t liked removed n)). x \<noteq> []"
proof
  fix x assume x: "x \<in> set (returned (generate_ideas model order t liked removed n))"
  then obtain resp where "x \<in> set (take 5 (map (after_first dot_space)
      (filter starts_numbered (stripped_lines resp))))"
    by (auto simp: returned_generate_ideas split: if_splits sum.splits)
  then have "x \<in> set (map (after_first dot_space) (filter starts_numbered (stripped_lines resp)))"
    by (rule in_set_takeD)
  then show "x \<noteq> []" using parsed_nonempty[OF parse_ideas_eq] by blast
qed

theorem generated_ideas_nonempty_witness:
  "lit ''Ship fast'' \<in> set (returned (generate_ideas (mock_service response_7) sorted_order
       (lit ''app'') {} {} 1))
   \<and> lit ''Ship fast'' \<noteq> []"
proof -
  have t: "strip (lit ''app'') \<noteq> []"
    by (simp add: lit_def strip_def isspace_def in_ranges_def)
  have g: "returned (generate_ideas (mock_service response_7) sorted_order
        (lit ''app'') {} {} 1) =
        [lit ''Build a widget'', lit ''Sell a gadget'', lit ''Ship fast'']"
    using parse_response_7 by (simp add: returned_generate_ideas t mock_service_def parse_ideas_eq)
  then have m: "lit ''Ship fast'' \<in> set (returned (generate_ideas (mock_service response_7)
       sorted_order (lit ''app'') {} {} 1))" by simp
  with generated_ideas_nonempty
         [of "mock_service response_7" sorted_order "lit ''app''" "{}" "{}" 1]
  show ?thesis by blast
qed

section \<open>Reset\<close>

text \<open>
  Claim C8: \<open>reset_session_state\<close> takes every session state, whichever keys it
  holds, to the same one: the empty topic, no ideas, no liked and no removed ideas,
  round 1. Resetting twice is resetting once, and a run of the script in which
  the reset button is pressed ends in that state.
\<close>

theorem reset_fixed_state:
  "reset_session_state st =
     \<lparr>k_topic = Some [], k_ideas = Some [], k_liked_ideas = Some {},
      k_removed_ideas = Some {}, k_current_round = Some 1\<rparr>
   \<and> initialise (reset_session_state st) =
     \<lparr>topic = [], ideas = [], liked_ideas = {}, removed_ideas = {}, current_round = 1\<rparr>
   \<and> reset_session_state (reset_session_state st) = reset_session_state st
   \<and> run model order typed ResetClick st = reset_session_state st"
  by (simp add: reset_value run_def initialise_def)

section \<open>Liking an idea and taking the like back\<close>

text \<open>
  Claim C9: when the like button of the \<open>i\<close>-th idea on screen is pressed, its text
  \<open>x\<close> is added to the liked ideas; when the remove button of \<open>x\<close> in the liked list
  is pressed next, \<open>x\<close> is no longer among the liked ideas, and the removed ideas, the
  topic, the idea list and the round counter are what they were.
\<close>

theorem like_then_remove_liked:
  assumes "1 \<le> i" and "i \<le> length (ideas (initialise st))"
  shows "let s = initialise st; x = ideas s ! (i - 1);
             st1 = run model1 order1 typed1 (LikeClick i) st;
             st2 = run model2 order2 typed2 (RemoveLikedClick x) st1
         in k_liked_ideas st1 = Some (insert x (liked_ideas s))
          \<and> k_liked_ideas st2 = Some (liked_ideas s - {x})
          \<and> x \<notin> liked_ideas (initialise st2)
          \<and> k_removed_ideas st2 = k_removed_ideas st1
          \<and> k_topic st2 = k_topic st1
          \<and> k_ideas st2 = k_ideas st1
          \<and> k_current_round st2 = k_current_round st1"
proof -
  let ?s = "initialise st"
  let ?x = "ideas ?s ! (i - 1)"
  let ?s1 = "?s\<lparr>liked_ideas := insert ?x (liked_ideas ?s)\<rparr>"
  have st1: "run model1 order1 typed1 (LikeClick i) st = stored ?s1"
    using assms by (rule run_like)
  from assms have ne: "ideas ?s \<noteq> []" by auto
  have st2: "run model2 order2 typed2 (RemoveLikedClick ?x) (stored ?s1) =
      stored (remove_liked ?x ?s1)"
    using ne by (simp add: run_remove_liked initialise_stored)
  show ?thesis
    unfolding Let_def st1 st2 initialise_stored by (simp add: stored_def remove_liked_def)
qed

theorem like_then_remove_liked_witness:
  "1 \<le> (1::nat) \<and> 1 \<le> length (ideas (initialise displayed_session))
   \<and> k_liked_ideas (run (mock_service response_7) sorted_order [] (LikeClick 1)
        displayed_session) = Some {lit ''Old idea''}
   \<and> k_liked_ideas
        (run (mock_service response_7) sorted_order [] (RemoveLikedClick (lit ''Old idea''))
          (run (mock_service response_7) sorted_order [] (LikeClick 1) displayed_session)) =
       Some {}
   \<and> k_removed_ideas
        (run (mock_service response_7) sorted_order [] (RemoveLikedClick (lit ''Old idea''))
          (run (mock_service response_7) sorted_order [] (LikeClick 1) displayed_session)) =
       k_removed_ideas
        (run (mock_service response_7) sorted_order [] (LikeClick 1) displayed_session)"
proof -
  have i: "initialise displayed_session =
      \<lparr>topic = lit ''app'', ideas = [lit ''Old idea''], liked_ideas = {},
       removed_ideas = {}, current_round = 2\<rparr>"
    by (simp add: initialise_def displayed_session_def)
  have h: "1 \<le> (1::nat)" "1 \<le> length (ideas (initialise displayed_session))"
    by (simp_all add: i)
  from like_then_remove_liked
         [OF h, of "mock_service response_7" sorted_order "[]"
                   "mock_service response_7" sorted_order "[]"] h
  show ?thesis by (simp add: Let_def i)
qed

end
